theory Spec2Isabelle
  imports Complex_Main
begin

section \<open>EKF SLAM for a differential-drive robot: SE(2) algebra and the filter\<close>

text \<open>
  The development embeds two source files: \<^verbatim>\<open>turtlelib/src/se2d.cpp\<close> (the rigid
  transform \<^verbatim>\<open>Transform2D\<close>) and the SLAM node (\<^verbatim>\<open>EKF_Slam_predict\<close>,
  \<^verbatim>\<open>EKF_Slam_update\<close> and the constructor that fills the noise matrices).

  Every \<^verbatim>\<open>double\<close> is a real number here: \<open>+\<close>, \<open>*\<close>, \<open>/\<close>, \<open>cos\<close>, \<open>sin\<close> and
  \<open>sqrt\<close> are exact, so rounding and overflow to infinity are not part of the model.
  The one place where the source computes \<open>0 / 0\<close>, an update at zero distance, leaves
  NaN in every entry of the filter's vector and matrix; the model has a value of its
  own for that content (\<open>AllNaN\<close>), which the later calls receive.
\<close>

subsection \<open>Value types of turtlelib\<close>

text \<open>
  \<^verbatim>\<open>Vector2D\<close>, \<^verbatim>\<open>Point2D\<close> and \<^verbatim>\<open>Twist2D\<close> are plain structs of doubles. The fields
  are prefixed (\<open>vec_x\<close> for \<^verbatim>\<open>Vector2D::x\<close>, \<open>pt_x\<close> for \<^verbatim>\<open>Point2D::x\<close>, \<open>tw_x\<close> for
  \<^verbatim>\<open>Twist2D::x\<close>) because a record field is a constant of the theory.
\<close>

record Vector2D =
  vec_x :: real
  vec_y :: real

record Point2D =
  pt_x :: real
  pt_y :: real

record Twist2D =
  tw_omega :: real
  tw_x :: real
  tw_y :: real

text \<open>\<^verbatim>\<open>Transform2D\<close> has the two members the member functions of se2d.cpp use.\<close>

record Transform2D =
  trans2d :: Vector2D
  rot2d :: real

subsection \<open>Transform2D: constructors\<close>

text \<open>
  The four constructors copy their arguments into the members; a member that gets no
  argument is value-initialised (zero).
\<close>

definition Transform2D_default :: Transform2D where
  "Transform2D_default = \<lparr>trans2d = \<lparr>vec_x = 0, vec_y = 0\<rparr>, rot2d = 0\<rparr>"

definition Transform2D_trans :: "Vector2D \<Rightarrow> Transform2D" where
  "Transform2D_trans tr = \<lparr>trans2d = tr, rot2d = 0\<rparr>"

definition Transform2D_rot :: "real \<Rightarrow> Transform2D" where
  "Transform2D_rot radians = \<lparr>trans2d = \<lparr>vec_x = 0, vec_y = 0\<rparr>, rot2d = radians\<rparr>"

definition Transform2D_trans_rot :: "Vector2D \<Rightarrow> real \<Rightarrow> Transform2D" where
  "Transform2D_trans_rot tr radians = \<lparr>trans2d = tr, rot2d = radians\<rparr>"

subsection \<open>Transform2D: application, inverse, composition, accessors\<close>

text \<open>\<^verbatim>\<open>Point2D Transform2D::operator()(Point2D p) const\<close>\<close>

definition apply_point :: "Transform2D \<Rightarrow> Point2D \<Rightarrow> Point2D" where
  "apply_point T p =
     \<lparr>pt_x = vec_x (trans2d T) + pt_x p,
      pt_y = vec_y (trans2d T) + pt_y p\<rparr>"

text \<open>
  The specification's formula for applying a transform to a point, written down to be
  compared with \<open>apply_point\<close>: the point is rotated by the transform's angle and then
  translated.
\<close>

definition apply_point_spec :: "Transform2D \<Rightarrow> Point2D \<Rightarrow> Point2D" where
  "apply_point_spec T p =
     \<lparr>pt_x = pt_x p * cos (rot2d T) - pt_y p * sin (rot2d T) + vec_x (trans2d T),
      pt_y = pt_x p * sin (rot2d T) + pt_y p * cos (rot2d T) + vec_y (trans2d T)\<rparr>"

text \<open>\<^verbatim>\<open>Vector2D Transform2D::operator()(Vector2D v) const\<close>\<close>

definition apply_vector :: "Transform2D \<Rightarrow> Vector2D \<Rightarrow> Vector2D" where
  "apply_vector T v =
     \<lparr>vec_x = vec_x v * cos (rot2d T) - vec_y v * sin (rot2d T) + vec_x (trans2d T),
      vec_y = vec_x v * sin (rot2d T) + vec_y v * cos (rot2d T) + vec_y (trans2d T)\<rparr>"

text \<open>\<^verbatim>\<open>Twist2D Transform2D::operator()(Twist2D v) const\<close>\<close>

definition apply_twist :: "Transform2D \<Rightarrow> Twist2D \<Rightarrow> Twist2D" where
  "apply_twist T v =
     \<lparr>tw_omega = tw_omega v,
      tw_x = tw_omega v * vec_y (trans2d T) + tw_x v * cos (rot2d T) - tw_y v * sin (rot2d T),
      tw_y = - tw_omega v * vec_x (trans2d T) + tw_x v * sin (rot2d T) + tw_y v * cos (rot2d T)\<rparr>"

text \<open>\<^verbatim>\<open>Transform2D Transform2D::inv() const\<close>\<close>

definition inv_tf :: "Transform2D \<Rightarrow> Transform2D" where
  "inv_tf T =
     Transform2D_trans_rot
       \<lparr>vec_x = - vec_x (trans2d T) * cos (rot2d T) - vec_y (trans2d T) * sin (rot2d T),
        vec_y = - vec_y (trans2d T) * cos (rot2d T) + vec_x (trans2d T) * sin (rot2d T)\<rparr>
       (- rot2d T)"

text \<open>
  \<^verbatim>\<open>Transform2D & Transform2D::operator*=(const Transform2D & rhs)\<close>, for a \<^verbatim>\<open>rhs\<close> that
  is not the object itself. The three assignments run in the source's order: \<^verbatim>\<open>rot2d\<close>
  is overwritten first, and the two translation lines read the new value.
\<close>

definition mul_assign :: "Transform2D \<Rightarrow> Transform2D \<Rightarrow> Transform2D" where
  "mul_assign this rhs =
     (let t1 = this\<lparr>rot2d := rot2d this + rot2d rhs\<rparr>;
          t2 = t1\<lparr>trans2d := (trans2d t1)\<lparr>vec_x :=
                  vec_x (trans2d rhs) * cos (rot2d t1) - vec_y (trans2d rhs) * sin (rot2d t1)
                    + vec_x (trans2d t1)\<rparr>\<rparr>;
          t3 = t2\<lparr>trans2d := (trans2d t2)\<lparr>vec_y :=
                  vec_x (trans2d rhs) * sin (rot2d t2) + vec_y (trans2d rhs) * cos (rot2d t2)
                    + vec_y (trans2d t2)\<rparr>\<rparr>
      in t3)"

text \<open>
  \<^verbatim>\<open>Transform2D operator*(Transform2D lhs, const Transform2D & rhs)\<close>: \<^verbatim>\<open>lhs\<close> is a
  copy, so \<^verbatim>\<open>rhs\<close> never aliases it.
\<close>

definition mul :: "Transform2D \<Rightarrow> Transform2D \<Rightarrow> Transform2D" where
  "mul lhs rhs = mul_assign lhs rhs"

definition translation :: "Transform2D \<Rightarrow> Vector2D" where
  "translation T = \<lparr>vec_x = vec_x (trans2d T), vec_y = vec_y (trans2d T)\<rparr>"

definition rotation :: "Transform2D \<Rightarrow> real" where
  "rotation T = rot2d T"

text \<open>The half-open interval \<open>(-\<pi>, \<pi>]\<close> the specification names for angles.\<close>

definition in_half_open :: "real \<Rightarrow> bool" where
  "in_half_open a = (- pi < a \<and> a \<le> pi)"

subsection \<open>Helpers of turtlelib/geometry2d and of the C++ library\<close>

text \<open>
  Modelled from the spec: \<^verbatim>\<open>normalize_angle\<close> is defined in turtlelib's geometry2d, which
  is not among the sources (only its test, \<^verbatim>\<open>tests/test_geometry2.cpp\<close>, is). The
  specification says: any angle outside \<open>(-\<pi>, \<pi>]\<close> is wrapped into that range, and
  exactly \<open>\<pi>\<close> and \<open>-\<pi>\<close> both remain themselves. The test requires the same of
  \<^verbatim>\<open>normalize_angle(-PI)\<close>. So \<open>-\<pi>\<close> is returned as it is and every other angle is
  moved by the multiple of \<open>2\<pi>\<close> that brings it into \<open>(-\<pi>, \<pi>]\<close>.
\<close>

definition normalize_angle :: "real \<Rightarrow> real" where
  "normalize_angle rad =
     (if rad = - pi then - pi
      else rad - 2 * pi * of_int \<lceil>(rad - pi) / (2 * pi)\<rceil>)"

text \<open>
  Modelled from the spec: \<^verbatim>\<open>almost_equal\<close> is declared in turtlelib's geometry2d, which is
  not among the sources. The specification calls it a tolerance-based near-equality
  test; the tolerance the callers leave to its default is the parameter \<open>eps\<close>.
\<close>

definition almost_equal :: "real \<Rightarrow> real \<Rightarrow> real \<Rightarrow> bool" where
  "almost_equal eps d1 d2 = (\<bar>d1 - d2\<bar> < eps)"

text \<open>
  \<^verbatim>\<open>std::atan2(y, x)\<close> on real numbers: the angle of the point \<open>(x, y)\<close>, in
  \<open>[-\<pi>, \<pi>]\<close>, and 0 at the origin.
\<close>

definition atan2 :: "real \<Rightarrow> real \<Rightarrow> real" where
  "atan2 y x =
     (if 0 < x then arctan (y / x)
      else if x < 0 \<and> 0 \<le> y then arctan (y / x) + pi
      else if x < 0 then arctan (y / x) - pi
      else if 0 < y then pi / 2
      else if y < 0 then - pi / 2
      else 0)"

subsection \<open>Dense vectors and matrices\<close>

text \<open>
  An \<^verbatim>\<open>arma::vec\<close> is a function from indices to entries and an \<^verbatim>\<open>arma::mat\<close> a function
  from row and column; the sizes are those of the source (\<open>STATE_SIZE\<close>, 2) and are
  passed to the operations that sum over an index. Element access is checked against
  the size where the index comes from the caller (\<open>marker_slot\<close> below).
\<close>

type_synonym vec = "nat \<Rightarrow> real"
type_synonym mat = "nat \<Rightarrow> nat \<Rightarrow> real"

definition zeros_vec :: vec where
  "zeros_vec = (\<lambda>i. 0)"

definition zeros_mat :: mat where
  "zeros_mat = (\<lambda>i j. 0)"

text \<open>The assignment \<^verbatim>\<open>M(i, j) = v\<close>.\<close>

definition mat_set :: "mat \<Rightarrow> nat \<Rightarrow> nat \<Rightarrow> real \<Rightarrow> mat" where
  "mat_set M i j v = M(i := (M i)(j := v))"

text \<open>\<^verbatim>\<open>arma::eye(n, n)\<close>\<close>

definition eye :: "nat \<Rightarrow> mat" where
  "eye n = (\<lambda>i j. if i = j \<and> i < n then 1 else 0)"

text \<open>\<open>A * B\<close>, with \<open>n\<close> the number of columns of \<open>A\<close> and of rows of \<open>B\<close>.\<close>

definition mat_mul :: "nat \<Rightarrow> mat \<Rightarrow> mat \<Rightarrow> mat" where
  "mat_mul n A B = (\<lambda>i j. \<Sum>k<n. A i k * B k j)"

text \<open>\<^verbatim>\<open>A.t()\<close>\<close>

definition mat_t :: "mat \<Rightarrow> mat" where
  "mat_t A = (\<lambda>i j. A j i)"

definition mat_add :: "mat \<Rightarrow> mat \<Rightarrow> mat" where
  "mat_add A B = (\<lambda>i j. A i j + B i j)"

definition mat_sub :: "mat \<Rightarrow> mat \<Rightarrow> mat" where
  "mat_sub A B = (\<lambda>i j. A i j - B i j)"

text \<open>\<open>A * v\<close> for a vector \<open>v\<close> of \<open>n\<close> entries.\<close>

definition mat_vec :: "nat \<Rightarrow> mat \<Rightarrow> vec \<Rightarrow> vec" where
  "mat_vec n A v = (\<lambda>i. \<Sum>k<n. A i k * v k)"

definition vec_add :: "vec \<Rightarrow> vec \<Rightarrow> vec" where
  "vec_add u v = (\<lambda>i. u i + v i)"

definition vec_sub :: "vec \<Rightarrow> vec \<Rightarrow> vec" where
  "vec_sub u v = (\<lambda>i. u i - v i)"

text \<open>Symmetry of the leading \<open>n \<times> n\<close> block.\<close>

definition symmetric :: "nat \<Rightarrow> mat \<Rightarrow> bool" where
  "symmetric n M = (\<forall>i<n. \<forall>j<n. M i j = M j i)"

text \<open>The exceptions that end a call before it returns.\<close>

datatype error =
    IndexOutOfBounds   \<comment> \<open>an element access outside the vector: Armadillo's checked access throws\<close>
  | SingularMatrix     \<comment> \<open>\<^verbatim>\<open>.i()\<close> of a matrix that has no inverse throws\<close>

text \<open>
  What the members \<^verbatim>\<open>state\<close> and \<^verbatim>\<open>covar\<close> hold when a call returns: real numbers, or
  NaN in every entry.
\<close>

datatype estimate = Numbers "vec \<times> mat" | AllNaN

text \<open>
  \<^verbatim>\<open>S.i()\<close> for a \<open>2 \<times> 2\<close> matrix: the inverse when the determinant is not zero;
  Armadillo throws otherwise.
\<close>

definition det2 :: "mat \<Rightarrow> real" where
  "det2 S = S 0 0 * S 1 1 - S 0 1 * S 1 0"

definition inv2 :: "mat \<Rightarrow> error + mat" where
  "inv2 S =
     (if det2 S = 0 then Inl SingularMatrix
      else Inr (\<lambda>i j.
        if i = 0 \<and> j = 0 then S 1 1 / det2 S
        else if i = 0 \<and> j = 1 then - S 0 1 / det2 S
        else if i = 1 \<and> j = 0 then - S 1 0 / det2 S
        else if i = 1 \<and> j = 1 then S 0 0 / det2 S
        else 0))"

subsection \<open>The SLAM node: constants and members\<close>

definition MAX_OBSTACLES :: nat where
  "MAX_OBSTACLES = 30"

definition STATE_SIZE :: nat where
  "STATE_SIZE = MAX_OBSTACLES * 2 + 3"

text \<open>
  Symmetry of the covariance member, by the comparison \<^verbatim>\<open>covar(i, j) == covar(j, i)\<close> of its entries: it is
  false for a NaN.
\<close>

fun symmetric_covar :: "estimate \<Rightarrow> bool" where
  "symmetric_covar (Numbers sc) = symmetric STATE_SIZE (snd sc)"
| "symmetric_covar AllNaN = False"

text \<open>The members as the constructor leaves them.\<close>

definition state_init :: vec where
  "state_init = zeros_vec"

text \<open>\<^verbatim>\<open>for (int i = 3; i < STATE_SIZE; i++) covar(i, i) = 1e9;\<close>\<close>

definition covar_init :: mat where
  "covar_init = fold (\<lambda>i M. mat_set M i i (10 ^ 9)) [3..<STATE_SIZE] zeros_mat"

definition Q_bar :: mat where
  "Q_bar =
     (let Q0 = mat_set zeros_mat 0 0 (1 / 10);
          Q1 = mat_set Q0 1 1 (1 / 10);
          Q2 = mat_set Q1 2 2 (1 / 10)
      in Q2)"

definition v_t :: vec where
  "v_t = zeros_vec(0 := 1 / 10, 1 := 1 / 10)"

definition R :: mat where
  "R = (let R0 = mat_set zeros_mat 0 0 (1 / 10); R1 = mat_set R0 1 1 (1 / 10) in R1)"

subsection \<open>EKF\_Slam\_predict\<close>

text \<open>
  The first half of \<^verbatim>\<open>EKF_Slam_predict\<close>: the mean. The assignments run in the source's
  order on the shared vector, so a later line reads what an earlier one wrote.
\<close>

definition predict_state :: "real \<Rightarrow> vec \<Rightarrow> Twist2D \<Rightarrow> vec" where
  "predict_state eps st twist =
     (if almost_equal eps (tw_omega twist) 0 then
        let s1 = st(1 := st 1 + tw_x twist * cos (st 0));
            s2 = s1(2 := s1 2 + tw_x twist * sin (s1 0))
        in s2
      else
        let s1 = st(1 := st 1 + (tw_x twist / tw_omega twist)
                        * (sin (st 0 + tw_omega twist) - sin (st 0)));
            s2 = s1(2 := s1 2 + (tw_x twist / tw_omega twist)
                        * (- cos (s1 0 + tw_omega twist) + cos (s1 0)));
            s3 = s2(0 := s2 0 + tw_omega twist)
        in s3)"

text \<open>
  The second half builds \<^verbatim>\<open>A_t\<close> from the vector \<open>st\<close> as it is at that point of the
  function, that is after the mean update.
\<close>

definition predict_A_t :: "real \<Rightarrow> vec \<Rightarrow> Twist2D \<Rightarrow> mat" where
  "predict_A_t eps st twist =
     (let I = eye STATE_SIZE; A0 = zeros_mat in
      if almost_equal eps (tw_omega twist) 0 then
        let A1 = mat_set A0 1 0 (- tw_x twist * sin (st 0));
            A2 = mat_set A1 2 0 (tw_x twist * cos (st 0))
        in mat_add I A2
      else
        let A1 = mat_set A0 1 0 ((tw_x twist / tw_omega twist)
                        * (cos (st 0 + tw_omega twist) - cos (st 0)));
            A2 = mat_set A1 2 0 ((tw_x twist / tw_omega twist)
                        * (sin (st 0 + tw_omega twist) - sin (st 0)))
        in mat_add I A2)"

text \<open>
  \<^verbatim>\<open>void EKF_Slam_predict(arma::vec & state, arma::mat & covar, const Twist2D & twist)\<close>:
  the pair of the two referenced objects goes in and comes out.
\<close>

definition EKF_Slam_predict :: "real \<Rightarrow> vec \<times> mat \<Rightarrow> Twist2D \<Rightarrow> vec \<times> mat" where
  "EKF_Slam_predict eps sc twist =
     (let st1 = predict_state eps (fst sc) twist;
          A_t = predict_A_t eps st1 twist
      in (st1,
          mat_add (mat_mul STATE_SIZE (mat_mul STATE_SIZE A_t (snd sc)) (mat_t A_t)) Q_bar))"

subsection \<open>EKF\_Slam\_update\<close>

text \<open>The measurement \<^verbatim>\<open>z\<close>: range and bearing of the marker plus \<^verbatim>\<open>v_t\<close>.\<close>

definition marker_range :: "real \<Rightarrow> real \<Rightarrow> real" where
  "marker_range marker_x marker_y = sqrt (marker_x ^ 2 + marker_y ^ 2)"

definition marker_bearing :: "real \<Rightarrow> real \<Rightarrow> real" where
  "marker_bearing marker_x marker_y = atan2 marker_y marker_x"

definition measurement_z :: "real \<Rightarrow> real \<Rightarrow> vec" where
  "measurement_z marker_x marker_y =
     vec_add (zeros_vec(0 := marker_range marker_x marker_y,
                        1 := marker_bearing marker_x marker_y)) v_t"

text \<open>The values of a 32-bit \<^verbatim>\<open>int\<close>, the type of \<^verbatim>\<open>marker_id\<close>.\<close>

definition in_int_range :: "int \<Rightarrow> bool" where
  "in_int_range v = (- (2 ^ 31) \<le> v \<and> v < 2 ^ 31)"

text \<open>
  The result of a 32-bit \<^verbatim>\<open>int\<close> operation whose exact result is \<open>v\<close>: the compiled
  code keeps the low 32 bits, read in two's complement.
\<close>

definition wrap_int :: "int \<Rightarrow> int" where
  "wrap_int v = (v + 2 ^ 31) mod 2 ^ 32 - 2 ^ 31"

text \<open>
  \<^verbatim>\<open>marker_index = marker_id * 2 + 3\<close> on 32-bit \<^verbatim>\<open>int\<close>s, then the accesses
  \<^verbatim>\<open>state(marker_index)\<close> and \<^verbatim>\<open>state(marker_index + 1)\<close>. The source has no check of its
  own. An index that is negative (a huge unsigned number once converted to Armadillo's
  index type) or beyond the last entry is outside the vector, and the access throws.
\<close>

definition marker_slot :: "int \<Rightarrow> error + nat" where
  "marker_slot marker_id =
     (let marker_index = wrap_int (wrap_int (marker_id * 2) + 3) in
      if marker_index < 0 \<or> int STATE_SIZE \<le> marker_index + 1 then Inl IndexOutOfBounds
      else Inr (nat marker_index))"

text \<open>The block guarded by \<^verbatim>\<open>state(marker_index) == 0 && state(marker_index + 1) == 0\<close>.\<close>

definition init_marker :: "vec \<Rightarrow> real \<Rightarrow> real \<Rightarrow> nat \<Rightarrow> vec" where
  "init_marker st r phi marker_index =
     (if st marker_index = 0 \<and> st (marker_index + 1) = 0 then
        let s1 = st(marker_index := st 1 + r * cos (phi + st 0));
            s2 = s1(marker_index + 1 := s1 2 + r * sin (phi + s1 0))
        in s2
      else st)"

definition delta_x :: "vec \<Rightarrow> nat \<Rightarrow> real" where
  "delta_x st marker_index = st marker_index - st 1"

definition delta_y :: "vec \<Rightarrow> nat \<Rightarrow> real" where
  "delta_y st marker_index = st (marker_index + 1) - st 2"

text \<open>The squared distance \<^verbatim>\<open>d\<close>.\<close>

definition sq_dist :: "vec \<Rightarrow> nat \<Rightarrow> real" where
  "sq_dist st marker_index = delta_x st marker_index ^ 2 + delta_y st marker_index ^ 2"

definition z_hat :: "vec \<Rightarrow> nat \<Rightarrow> vec" where
  "z_hat st marker_index =
     zeros_vec(0 := sqrt (sq_dist st marker_index),
               1 := normalize_angle
                      (atan2 (delta_y st marker_index) (delta_x st marker_index) - st 0))"

text \<open>The residual \<^verbatim>\<open>z - z_hat\<close> that \<^verbatim>\<open>state += K * (z - z_hat)\<close> applies.\<close>

definition residual :: "vec \<Rightarrow> vec \<Rightarrow> nat \<Rightarrow> vec" where
  "residual st z marker_index = vec_sub z (z_hat st marker_index)"

text \<open>The \<open>2 \<times> STATE_SIZE\<close> matrix \<^verbatim>\<open>H\<close>, its entries assigned in the source's order.\<close>

definition measurement_H :: "vec \<Rightarrow> nat \<Rightarrow> mat" where
  "measurement_H st marker_index =
     (let dx = delta_x st marker_index; dy = delta_y st marker_index;
          d = sq_dist st marker_index;
          H0 = mat_set zeros_mat 1 0 (- 1);
          H1 = mat_set H0 0 1 (- dx / sqrt d);
          H2 = mat_set H1 0 2 (- dy / sqrt d);
          H3 = mat_set H2 1 1 (dy / d);
          H4 = mat_set H3 1 2 (- dx / d);
          H5 = mat_set H4 0 marker_index (dx / sqrt d);
          H6 = mat_set H5 0 (marker_index + 1) (dy / sqrt d);
          H7 = mat_set H6 1 marker_index (- dy / d);
          H8 = mat_set H7 1 (marker_index + 1) (dx / d)
      in H8)"

text \<open>The innovation matrix \<open>H covar H\<^sup>T + R\<close> that the update inverts.\<close>

definition innovation_S :: "vec \<Rightarrow> mat \<Rightarrow> nat \<Rightarrow> mat" where
  "innovation_S st covar marker_index =
     (let H = measurement_H st marker_index in
      mat_add (mat_mul STATE_SIZE (mat_mul STATE_SIZE H covar) (mat_t H)) R)"

text \<open>
  The rest of \<^verbatim>\<open>EKF_Slam_update\<close>, from the measurement model to the covariance update,
  on the state vector \<open>st\<close> as the initialisation block left it.

  The source has no guard on the squared distance \<^verbatim>\<open>d\<close>. At \<open>d = 0\<close> both deltas are
  zero and eight entries of \<^verbatim>\<open>H\<close> are \<open>0 / 0\<close>, NaN; every entry of \<^verbatim>\<open>H * covar * H.t() + R\<close>,
  of its inverse (\<^verbatim>\<open>.i()\<close> of a NaN matrix taken to give NaN entries), of \<^verbatim>\<open>K\<close>, of the
  new state and of the new covariance is then a sum with a NaN term. The call returns
  and the members hold NaN everywhere.
\<close>

definition kalman_step :: "vec \<Rightarrow> mat \<Rightarrow> vec \<Rightarrow> nat \<Rightarrow> error + estimate" where
  "kalman_step st covar z marker_index =
     (if sq_dist st marker_index = 0 then Inr AllNaN
      else
        let H = measurement_H st marker_index in
        case inv2 (innovation_S st covar marker_index) of
          Inl e \<Rightarrow> Inl e
        | Inr Si \<Rightarrow>
            let K = mat_mul 2 (mat_mul STATE_SIZE covar (mat_t H)) Si;
                st' = vec_add st (mat_vec 2 K (residual st z marker_index));
                I = eye STATE_SIZE;
                covar' = mat_mul STATE_SIZE (mat_sub I (mat_mul 2 K H)) covar
            in Inr (Numbers (st', covar')))"

text \<open>
  \<^verbatim>\<open>void EKF_Slam_update(arma::vec & state, arma::mat & covar, const double & marker_x,
  const double & marker_y, const int & marker_id)\<close>, called with real numbers in
  \<^verbatim>\<open>state\<close> and \<^verbatim>\<open>covar\<close>.
\<close>

definition EKF_Slam_update :: "vec \<times> mat \<Rightarrow> real \<Rightarrow> real \<Rightarrow> int \<Rightarrow> error + estimate" where
  "EKF_Slam_update sc marker_x marker_y marker_id =
     (let r = marker_range marker_x marker_y;
          phi = marker_bearing marker_x marker_y;
          z = measurement_z marker_x marker_y
      in case marker_slot marker_id of
           Inl e \<Rightarrow> Inl e
         | Inr marker_index \<Rightarrow>
             kalman_step (init_marker (fst sc) r phi marker_index) (snd sc) z marker_index)"

text \<open>
  The same function called when the members hold NaN everywhere. The two accesses are
  checked as before; \<^verbatim>\<open>state(marker_index) == 0\<close> is false for a NaN, so nothing is
  initialised, and every entry computed from the state and the covariance is NaN
  again.
\<close>

definition EKF_Slam_update_nan :: "int \<Rightarrow> error + estimate" where
  "EKF_Slam_update_nan marker_id =
     (case marker_slot marker_id of
        Inl e \<Rightarrow> Inl e
      | Inr marker_index \<Rightarrow> Inr AllNaN)"

text \<open>
  A run of the filter: any sequence of calls to the two operations on the members.
  An exception ends the run; after a call that left NaN the node goes on, and
  \<^verbatim>\<open>EKF_Slam_predict\<close> on NaN members (every sum and product has a NaN operand) leaves
  NaN.
\<close>

datatype ekf_call = Predict Twist2D | Update real real int

fun ekf_run :: "real \<Rightarrow> estimate \<Rightarrow> ekf_call list \<Rightarrow> error + estimate" where
  "ekf_run eps est [] = Inr est"
| "ekf_run eps (Numbers sc) (Predict twist # cs) =
     ekf_run eps (Numbers (EKF_Slam_predict eps sc twist)) cs"
| "ekf_run eps AllNaN (Predict twist # cs) = ekf_run eps AllNaN cs"
| "ekf_run eps (Numbers sc) (Update marker_x marker_y marker_id # cs) =
     (case EKF_Slam_update sc marker_x marker_y marker_id of
        Inl e \<Rightarrow> Inl e
      | Inr est' \<Rightarrow> ekf_run eps est' cs)"
| "ekf_run eps AllNaN (Update marker_x marker_y marker_id # cs) =
     (case EKF_Slam_update_nan marker_id of
        Inl e \<Rightarrow> Inl e
      | Inr est' \<Rightarrow> ekf_run eps est' cs)"

section \<open>Auxiliary facts\<close>

subsection \<open>Transform2D\<close>

text \<open>
  What \<^verbatim>\<open>T * T.inv()\<close> computes for any \<open>T\<close>: the rotation is zero, the translation is
  the one of \<open>T\<close> minus its image under the rotation of \<open>T\<close>.
\<close>

lemma mul_inv_tf_value:
  "mul T (inv_tf T) =
     \<lparr>trans2d =
        \<lparr>vec_x = vec_x (trans2d T)
                  - (vec_x (trans2d T) * cos (rot2d T) + vec_y (trans2d T) * sin (rot2d T)),
         vec_y = vec_y (trans2d T)
                  - (vec_y (trans2d T) * cos (rot2d T) - vec_x (trans2d T) * sin (rot2d T))\<rparr>,
      rot2d = 0\<rparr>"
  by (cases T) (simp add: mul_def mul_assign_def inv_tf_def Transform2D_trans_rot_def Let_def)


subsection \<open>Angles\<close>

lemma wrap_range:
  "- pi < rad - 2 * pi * of_int \<lceil>(rad - pi) / (2 * pi)\<rceil> \<and>
   rad - 2 * pi * of_int \<lceil>(rad - pi) / (2 * pi)\<rceil> \<le> pi"
proof -
  define c where "c = \<lceil>(rad - pi) / (2 * pi)\<rceil>"
  have p: "0 < 2 * pi" by simp
  have "(rad - pi) / (2 * pi) \<le> of_int c"
    unfolding c_def by (rule le_of_int_ceiling)
  then have upper: "rad - pi \<le> of_int c * (2 * pi)"
    using p by (simp add: pos_divide_le_eq)
  have "of_int c - 1 < (rad - pi) / (2 * pi)"
    unfolding c_def by linarith
  then have lower: "(of_int c - 1) * (2 * pi) < rad - pi"
    using p by (simp add: pos_less_divide_eq)
  from upper lower show ?thesis
    unfolding c_def[symmetric] by (simp add: algebra_simps)
qed

lemma wrap_shift:
  assumes "- pi < r" "r \<le> pi"
  shows "(r + 2 * pi * of_int k) - 2 * pi * of_int \<lceil>((r + 2 * pi * of_int k) - pi) / (2 * pi)\<rceil> = r"
proof -
  have p: "0 < 2 * pi" by simp
  have split: "((r + 2 * pi * of_int k) - pi) / (2 * pi) = (r - pi) / (2 * pi) + of_int k"
    by (simp add: field_simps)
  have "(r - pi) / (2 * pi) \<le> 0"
    using assms p by (simp add: divide_le_0_iff)
  moreover have "- 1 < (r - pi) / (2 * pi)"
    using assms p by (simp add: pos_less_divide_eq)
  ultimately have "\<lceil>(r - pi) / (2 * pi)\<rceil> = 0"
    by (simp add: ceiling_eq_iff)
  then have "\<lceil>((r + 2 * pi * of_int k) - pi) / (2 * pi)\<rceil> = k"
    unfolding split by simp
  then show ?thesis by simp
qed

lemma normalize_angle_shift:
  assumes "- pi < r" "r \<le> pi" "r + 2 * pi * of_int k \<noteq> - pi"
  shows "normalize_angle (r + 2 * pi * of_int k) = r"
  using wrap_shift[OF assms(1,2), of k] assms(3) by (simp add: normalize_angle_def)

lemma normalize_angle_fix:
  assumes "- pi < r" "r \<le> pi"
  shows "normalize_angle r = r"
  using normalize_angle_shift[OF assms, of 0] assms by simp

lemma normalize_angle_bounds: "- pi \<le> normalize_angle a \<and> normalize_angle a \<le> pi"
  using wrap_range[of a] by (auto simp: normalize_angle_def)

lemma normalize_angle_half_open: "a \<noteq> - pi \<Longrightarrow> in_half_open (normalize_angle a)"
  using wrap_range[of a] by (auto simp: normalize_angle_def in_half_open_def)

lemma normalize_angle_idem: "normalize_angle (normalize_angle a) = normalize_angle a"
proof (cases "a = - pi")
  case True
  then show ?thesis by (simp add: normalize_angle_def)
next
  case False
  from normalize_angle_half_open[OF False]
  have "- pi < normalize_angle a" "normalize_angle a \<le> pi"
    by (simp_all add: in_half_open_def)
  then show ?thesis by (rule normalize_angle_fix)
qed

lemma normalize_angle_zero: "normalize_angle 0 = 0"
  by (rule normalize_angle_fix) (use pi_gt_zero in linarith)+

text \<open>
  The six requirements of the test case \<^verbatim>\<open>angle is normalized\<close> hold of the modelled
  function.
\<close>

lemma normalize_angle_test_case:
  "normalize_angle pi = pi"
  "normalize_angle (- pi) = - pi"
  "normalize_angle 0 = 0"
  "normalize_angle (- pi / 4) = - pi / 4"
  "normalize_angle (3 * pi / 2) = - pi / 2"
  "normalize_angle (- 5 * pi / 2) = - pi / 2"
proof -
  have pos: "0 < pi" by (rule pi_gt_zero)
  show "normalize_angle pi = pi"
    by (rule normalize_angle_fix) (use pos in linarith)+
  show "normalize_angle (- pi) = - pi"
    by (simp add: normalize_angle_def)
  show "normalize_angle 0 = 0"
    by (rule normalize_angle_zero)
  show "normalize_angle (- pi / 4) = - pi / 4"
    by (rule normalize_angle_fix) (use pos in linarith)+
  have "normalize_angle (- pi / 2 + 2 * pi * of_int 1) = - pi / 2"
    by (rule normalize_angle_shift) (use pos in simp_all, use pos in linarith)
  then show "normalize_angle (3 * pi / 2) = - pi / 2"
    by (simp add: field_simps)
  have "normalize_angle (- pi / 2 + 2 * pi * of_int (- 1)) = - pi / 2"
    by (rule normalize_angle_shift) (use pos in simp_all, use pos in linarith)
  then show "normalize_angle (- 5 * pi / 2) = - pi / 2"
    by (simp add: field_simps)
qed

lemma atan2_behind: "atan2 0 (- 1) = pi"
  by (simp add: atan2_def)

lemma atan2_ahead: "atan2 0 1 = 0"
  by (simp add: atan2_def)

subsection \<open>Matrix algebra\<close>

lemma sum_eye_left: "i < n \<Longrightarrow> (\<Sum>k<n. eye n i k * f k) = f i"
proof -
  assume i: "i < n"
  have "(\<Sum>k<n. eye n i k * f k) = (\<Sum>k<n. if i = k then f k else 0)"
    using i by (intro sum.cong refl) (simp add: eye_def)
  also have "\<dots> = f i"
    using i by simp
  finally show ?thesis .
qed

lemma sum_eye_right: "j < n \<Longrightarrow> (\<Sum>k<n. f k * eye n j k) = f j"
  using sum_eye_left[of j n f] by (simp add: mult.commute)

lemma mat_mul_eye_left: "i < n \<Longrightarrow> mat_mul n (eye n) P i j = P i j"
  by (simp add: mat_mul_def sum_eye_left)

lemma mat_mul_eye_t_right: "j < n \<Longrightarrow> mat_mul n M (mat_t (eye n)) i j = M i j"
  by (simp add: mat_mul_def mat_t_def sum_eye_right)

lemma sandwich_eye:
  "i < n \<Longrightarrow> j < n \<Longrightarrow> mat_mul n (mat_mul n (eye n) P) (mat_t (eye n)) i j = P i j"
  by (simp add: mat_mul_eye_t_right mat_mul_eye_left)

text \<open>\<open>A P A\<^sup>T\<close> is symmetric when \<open>P\<close> is, whatever the rows of \<open>A\<close>.\<close>

lemma sandwich_sym:
  assumes "symmetric n P"
  shows "mat_mul n (mat_mul n A P) (mat_t A) i j = mat_mul n (mat_mul n A P) (mat_t A) j i"
proof -
  have "(\<Sum>l<n. (\<Sum>k<n. A i k * P k l) * A j l) = (\<Sum>l<n. \<Sum>k<n. A i k * P k l * A j l)"
    by (simp add: sum_distrib_right)
  also have "\<dots> = (\<Sum>k<n. \<Sum>l<n. A i k * P k l * A j l)"
    by (rule sum.swap)
  also have "\<dots> = (\<Sum>k<n. \<Sum>l<n. A j l * P l k * A i k)"
    using assms by (intro sum.cong refl) (simp add: symmetric_def mult_ac)
  also have "\<dots> = (\<Sum>k<n. (\<Sum>l<n. A j l * P l k) * A i k)"
    by (simp add: sum_distrib_right)
  finally show ?thesis
    by (simp add: mat_mul_def mat_t_def)
qed

lemma predict_covar_sym:
  assumes "symmetric n P" "symmetric n Q"
  shows "symmetric n (mat_add (mat_mul n (mat_mul n A P) (mat_t A)) Q)"
  unfolding symmetric_def
proof (intro allI impI)
  fix i j
  assume "i < n" "j < n"
  then have "Q i j = Q j i"
    using assms(2) by (simp add: symmetric_def)
  then show "mat_add (mat_mul n (mat_mul n A P) (mat_t A)) Q i j
        = mat_add (mat_mul n (mat_mul n A P) (mat_t A)) Q j i"
    using sandwich_sym[OF assms(1), of A i j] by (simp add: mat_add_def)
qed

lemma sum_two: "(\<Sum>a<(2::nat). f a) = f 0 + f 1"
  by (simp add: lessThan_Suc numeral_2_eq_2 add.commute)

text \<open>
  One entry of \<open>(I - K H) P\<close> with \<open>K = (P H\<^sup>T) Si\<close>: the entry of \<open>P\<close> minus a form in
  \<open>G = P H\<^sup>T\<close> and \<open>Si\<close>.
\<close>

lemma update_entry:
  assumes P: "symmetric n P" and i: "i < n" and j: "j < n"
  shows "mat_mul n (mat_sub (eye n) (mat_mul 2 (mat_mul 2 (mat_mul n P (mat_t H)) Si) H)) P i j
       = P i j - (\<Sum>a<2. (\<Sum>b<2. mat_mul n P (mat_t H) i b * Si b a)
                          * mat_mul n P (mat_t H) j a)"
proof -
  let ?G = "mat_mul n P (mat_t H)"
  let ?K = "mat_mul 2 ?G Si"
  have HP: "(\<Sum>k<n. H a k * P k j) = ?G j a" for a
    unfolding mat_mul_def mat_t_def
    using P j by (intro sum.cong refl) (simp add: symmetric_def mult_ac)
  have "mat_mul n (mat_sub (eye n) (mat_mul 2 ?K H)) P i j
      = (\<Sum>k<n. eye n i k * P k j) - (\<Sum>k<n. (\<Sum>a<2. ?K i a * H a k) * P k j)"
    by (simp add: mat_mul_def mat_sub_def left_diff_distrib sum_subtractf)
  also have "(\<Sum>k<n. eye n i k * P k j) = P i j"
    using i by (rule sum_eye_left)
  also have "(\<Sum>k<n. (\<Sum>a<2. ?K i a * H a k) * P k j)
      = (\<Sum>k<n. \<Sum>a<2. ?K i a * (H a k * P k j))"
    by (simp add: sum_distrib_right mult.assoc)
  also have "\<dots> = (\<Sum>a<2. \<Sum>k<n. ?K i a * (H a k * P k j))"
    by (rule sum.swap)
  also have "\<dots> = (\<Sum>a<2. ?K i a * ?G j a)"
    by (simp add: sum_distrib_left[symmetric] HP)
  also have "\<dots> = (\<Sum>a<2. (\<Sum>b<2. ?G i b * Si b a) * ?G j a)"
    by (simp add: mat_mul_def[of 2])
  finally show ?thesis .
qed

lemma update_covar_sym:
  assumes P: "symmetric n P" and Si: "Si 0 1 = Si 1 0"
  shows "symmetric n
     (mat_mul n (mat_sub (eye n) (mat_mul 2 (mat_mul 2 (mat_mul n P (mat_t H)) Si) H)) P)"
  unfolding symmetric_def
proof (intro allI impI)
  fix i j
  assume i: "i < n" and j: "j < n"
  have Pij: "P i j = P j i"
    using P i j by (simp add: symmetric_def)
  have Si': "Si 0 (Suc 0) = Si (Suc 0) 0"
    using Si by simp
  show "mat_mul n (mat_sub (eye n) (mat_mul 2 (mat_mul 2 (mat_mul n P (mat_t H)) Si) H)) P i j
      = mat_mul n (mat_sub (eye n) (mat_mul 2 (mat_mul 2 (mat_mul n P (mat_t H)) Si) H)) P j i"
    unfolding update_entry[OF P i j] update_entry[OF P j i]
    by (simp add: sum_two Pij Si' algebra_simps)
qed

lemma inv2_sym: "S 0 1 = S 1 0 \<Longrightarrow> inv2 S = Inr Si \<Longrightarrow> Si 0 1 = Si 1 0"
  by (auto simp: inv2_def split: if_splits)

text \<open>\<open>H P H\<^sup>T\<close> for a diagonal \<open>P\<close>.\<close>

lemma sandwich_diag:
  assumes "\<And>k l. k \<noteq> l \<Longrightarrow> P k l = 0"
  shows "mat_mul n (mat_mul n H P) (mat_t H) a b = (\<Sum>l<n. H a l * P l l * H b l)"
proof -
  have "(\<Sum>k<n. H a k * P k l) = H a l * P l l" if "l < n" for l
  proof -
    have "(\<Sum>k<n. H a k * P k l) = (\<Sum>k<n. if k = l then H a l * P l l else 0)"
      using assms by (intro sum.cong refl) auto
    also have "\<dots> = H a l * P l l"
      using that by simp
    finally show ?thesis .
  qed
  then show ?thesis
    by (simp add: mat_mul_def mat_t_def)
qed

subsection \<open>The members after construction\<close>

lemma fold_diag_entry:
  "fold (\<lambda>i M. mat_set M i i v) xs M0 i j = (if i = j \<and> i \<in> set xs then v else M0 i j)"
  by (induction xs arbitrary: M0) (auto simp: mat_set_def)

lemma covar_init_entry:
  "covar_init i j = (if i = j \<and> 3 \<le> i \<and> i < STATE_SIZE then 10 ^ 9 else 0)"
  by (simp add: covar_init_def fold_diag_entry zeros_mat_def)

lemma covar_init_sym: "symmetric n covar_init"
  by (simp add: symmetric_def covar_init_entry)

lemma Q_bar_entry: "Q_bar i j = (if i = j \<and> i < 3 then 1 / 10 else 0)"
  by (auto simp: Q_bar_def mat_set_def zeros_mat_def Let_def)

lemma Q_bar_sym: "symmetric n Q_bar"
  by (simp add: symmetric_def Q_bar_entry)

lemma R_entry: "R i j = (if i = j \<and> i < 2 then 1 / 10 else 0)"
  by (auto simp: R_def mat_set_def zeros_mat_def Let_def)

subsection \<open>Predict and update, one call\<close>

lemma predict_sym:
  assumes "symmetric STATE_SIZE (snd sc)"
  shows "symmetric STATE_SIZE (snd (EKF_Slam_predict eps sc twist))"
  using predict_covar_sym[OF assms Q_bar_sym] by (simp add: EKF_Slam_predict_def Let_def)

lemma kalman_sym:
  assumes P: "symmetric STATE_SIZE P" and r: "kalman_step st P z k = Inr (Numbers sc')"
  shows "symmetric STATE_SIZE (snd sc')"
proof -
  let ?H = "measurement_H st k"
  let ?S = "innovation_S st P k"
  from r obtain Si where Si: "inv2 ?S = Inr Si"
    and sc': "snd sc' = mat_mul STATE_SIZE (mat_sub (eye STATE_SIZE)
                 (mat_mul 2 (mat_mul 2 (mat_mul STATE_SIZE P (mat_t ?H)) Si) ?H)) P"
    by (auto simp: kalman_step_def Let_def split: if_splits sum.splits)
  have "?S 0 1 = ?S 1 0"
    using sandwich_sym[OF P, of ?H 0 1] by (simp add: innovation_S_def Let_def mat_add_def R_entry)
  then have "Si 0 1 = Si 1 0"
    using Si by (rule inv2_sym)
  then show ?thesis
    unfolding sc' by (rule update_covar_sym[OF P])
qed

text \<open>The Kalman step returns numbers exactly at non-zero distance with an invertible \<open>S\<close>.\<close>

lemma kalman_step_numbers_iff:
  "(\<exists>sc'. kalman_step st P z k = Inr (Numbers sc'))
     \<longleftrightarrow> sq_dist st k \<noteq> 0 \<and> det2 (innovation_S st P k) \<noteq> 0"
  by (auto simp: kalman_step_def inv2_def Let_def split: if_splits sum.splits)

lemma update_sym:
  assumes "symmetric STATE_SIZE (snd sc)"
    and "EKF_Slam_update sc mx my mid = Inr (Numbers sc')"
  shows "symmetric STATE_SIZE (snd sc')"
  using assms by (auto simp: EKF_Slam_update_def Let_def split: sum.splits dest: kalman_sym)

lemma update_numbers_iff:
  "(\<exists>sc'. EKF_Slam_update sc mx my mid = Inr (Numbers sc'))
     \<longleftrightarrow> (\<exists>k. marker_slot mid = Inr k
            \<and> sq_dist (init_marker (fst sc) (marker_range mx my) (marker_bearing mx my) k) k \<noteq> 0
            \<and> det2 (innovation_S
                      (init_marker (fst sc) (marker_range mx my) (marker_bearing mx my) k)
                      (snd sc) k) \<noteq> 0)"
  using kalman_step_numbers_iff
  by (cases "marker_slot mid") (simp_all add: EKF_Slam_update_def Let_def)

text \<open>Along a run the members hold NaN or a symmetric covariance.\<close>

lemma run_sym:
  "est = AllNaN \<or> symmetric_covar est \<Longrightarrow> ekf_run eps est cs = Inr est'
     \<Longrightarrow> est' = AllNaN \<or> symmetric_covar est'"
proof (induction eps est cs rule: ekf_run.induct)
  case (1 eps est)
  then show ?case by simp
next
  case (2 eps sc twist cs)
  then show ?case using predict_sym[of sc eps twist] by simp
next
  case (3 eps twist cs)
  then show ?case by simp
next
  case (4 eps sc marker_x marker_y marker_id cs)
  from "4.prems"(2) obtain e where
    u: "EKF_Slam_update sc marker_x marker_y marker_id = Inr e"
    and rest: "ekf_run eps e cs = Inr est'"
    by (auto split: sum.splits)
  have "e = AllNaN \<or> symmetric_covar e"
  proof (cases e)
    case (Numbers sc1)
    with u "4.prems"(1) update_sym[of sc marker_x marker_y marker_id sc1]
    show ?thesis by simp
  next
    case AllNaN
    then show ?thesis by simp
  qed
  with "4.IH"[OF u] rest show ?case by simp
next
  case (5 eps marker_x marker_y marker_id cs)
  from "5.prems"(2) obtain e where
    u: "EKF_Slam_update_nan marker_id = Inr e"
    and rest: "ekf_run eps e cs = Inr est'"
    by (auto split: sum.splits)
  from u have "e = AllNaN"
    by (auto simp: EKF_Slam_update_nan_def split: sum.splits)
  with "5.IH"[OF u] rest show ?case by simp
qed

lemma predict_zero_A:
  assumes "0 < eps" "tw_omega twist = 0" "tw_x twist = 0"
  shows "predict_A_t eps st twist = eye STATE_SIZE"
  using assms
  by (auto simp: predict_A_t_def almost_equal_def Let_def mat_set_def zeros_mat_def
        mat_add_def fun_eq_iff)

lemma predict_zero_state:
  assumes "0 < eps" "tw_omega twist = 0" "tw_x twist = 0"
  shows "predict_state eps st twist = st"
  using assms by (auto simp: predict_state_def almost_equal_def Let_def fun_eq_iff)

lemma wrap_int_id: "in_int_range v \<Longrightarrow> wrap_int v = v"
  by (simp add: wrap_int_def in_int_range_def)

lemma wrap_int_high: "2 ^ 31 \<le> v \<Longrightarrow> v < 2 ^ 32 + 2 ^ 31 \<Longrightarrow> wrap_int v = v - 2 ^ 32"
proof -
  assume a: "2 ^ 31 \<le> v" "v < 2 ^ 32 + 2 ^ 31"
  have "(v + 2 ^ 31) mod 2 ^ 32 = v + 2 ^ 31 - 2 ^ 32"
    by (rule int_mod_pos_eq[where q = 1]) (use a in simp_all)
  then show ?thesis by (simp add: wrap_int_def)
qed

lemma wrap_int_low: "- (2 ^ 32) - 2 ^ 31 \<le> v \<Longrightarrow> v < - (2 ^ 31) \<Longrightarrow> wrap_int v = v + 2 ^ 32"
proof -
  assume a: "- (2 ^ 32) - 2 ^ 31 \<le> v" "v < - (2 ^ 31)"
  have "(v + 2 ^ 31) mod 2 ^ 32 = v + 2 ^ 31 + 2 ^ 32"
    by (rule int_mod_pos_eq[where q = "- 1"]) (use a in simp_all)
  then show ?thesis by (simp add: wrap_int_def)
qed

lemma wrap_int_add: "wrap_int (wrap_int a + b) = wrap_int (a + b)"
proof -
  have "(wrap_int a + b + 2 ^ 31) mod 2 ^ 32 = ((a + 2 ^ 31) mod 2 ^ 32 + b) mod 2 ^ 32"
    by (simp add: wrap_int_def)
  also have "\<dots> = (a + 2 ^ 31 + b) mod 2 ^ 32"
    by (rule mod_add_left_eq)
  also have "\<dots> = (a + b + 2 ^ 31) mod 2 ^ 32"
    by (simp add: ac_simps)
  finally show ?thesis
    by (simp add: wrap_int_def)
qed

text \<open>The index the compiled code computes, by the three ranges of \<^verbatim>\<open>marker_id\<close>.\<close>

lemma marker_index_cases:
  assumes "in_int_range marker_id"
  shows "wrap_int (wrap_int (marker_id * 2) + 3) =
     (if marker_id < - (2 ^ 30) - 1 then marker_id * 2 + 3 + 2 ^ 32
      else if marker_id < 2 ^ 30 - 1 then marker_id * 2 + 3
      else marker_id * 2 + 3 - 2 ^ 32)"
proof -
  consider (low) "marker_id < - (2 ^ 30) - 1"
    | (mid) "- (2 ^ 30) - 1 \<le> marker_id" "marker_id < 2 ^ 30 - 1"
    | (high) "2 ^ 30 - 1 \<le> marker_id"
    by linarith
  then have "wrap_int (marker_id * 2 + 3) =
     (if marker_id < - (2 ^ 30) - 1 then marker_id * 2 + 3 + 2 ^ 32
      else if marker_id < 2 ^ 30 - 1 then marker_id * 2 + 3
      else marker_id * 2 + 3 - 2 ^ 32)"
  proof cases
    case low
    then have "wrap_int (marker_id * 2 + 3) = marker_id * 2 + 3 + 2 ^ 32"
      using assms by (intro wrap_int_low) (simp_all add: in_int_range_def)
    with low show ?thesis by simp
  next
    case mid
    then have "wrap_int (marker_id * 2 + 3) = marker_id * 2 + 3"
      by (intro wrap_int_id) (simp add: in_int_range_def)
    with mid show ?thesis by simp
  next
    case high
    then have "wrap_int (marker_id * 2 + 3) = marker_id * 2 + 3 - 2 ^ 32"
      using assms by (intro wrap_int_high) (simp_all add: in_int_range_def)
    with high show ?thesis by simp
  qed
  then show ?thesis
    by (simp add: wrap_int_add)
qed

lemma marker_slot_landmark:
  assumes "0 \<le> marker_id" "marker_id < 30"
  shows "marker_slot marker_id = Inr (3 + 2 * nat marker_id)"
proof -
  have "in_int_range marker_id"
    using assms by (simp add: in_int_range_def)
  from marker_index_cases[OF this] assms
  have "wrap_int (wrap_int (marker_id * 2) + 3) = marker_id * 2 + 3"
    by simp
  with assms show ?thesis
    by (simp add: marker_slot_def Let_def STATE_SIZE_def MAX_OBSTACLES_def
          nat_add_distrib nat_mult_distrib)
qed

text \<open>The ids whose two accesses are inside the vector.\<close>

lemma marker_slot_ok_iff:
  assumes "in_int_range marker_id"
  shows "(\<exists>k. marker_slot marker_id = Inr k) \<longleftrightarrow>
     (- 1 \<le> marker_id \<and> marker_id < 30) \<or> marker_id = 2 ^ 31 - 1
       \<or> marker_id < - (2 ^ 31) + 30"
  using assms
  by (auto simp: marker_slot_def Let_def STATE_SIZE_def MAX_OBSTACLES_def
        marker_index_cases in_int_range_def split: if_splits)

lemma marker_slot_error: "marker_slot marker_id = Inl e \<Longrightarrow> e = IndexOutOfBounds"
  by (auto simp: marker_slot_def Let_def split: if_splits)

lemma kalman_step_errors: "kalman_step st P z k \<noteq> Inl IndexOutOfBounds"
  by (auto simp: kalman_step_def inv2_def Let_def split: sum.splits if_splits)

subsection \<open>The first observation of landmark 0 from the initial estimate\<close>

lemma H_first:
  "measurement_H (zeros_vec(3 := 1, 4 := 0)) 3 =
     (\<lambda>i j. if i = 0 \<and> j = 1 then - 1 else if i = 0 \<and> j = 3 then 1
        else if i = 1 \<and> j = 0 then - 1 else if i = 1 \<and> j = 2 then - 1
        else if i = 1 \<and> j = 4 then 1 else 0)"
  by (auto simp: measurement_H_def Let_def mat_set_def zeros_mat_def zeros_vec_def
        delta_x_def delta_y_def sq_dist_def fun_eq_iff)

lemma S_first:
  "mat_mul STATE_SIZE
     (mat_mul STATE_SIZE (measurement_H (zeros_vec(3 := 1, 4 := 0)) 3) covar_init)
     (mat_t (measurement_H (zeros_vec(3 := 1, 4 := 0)) 3)) a b =
   (if a = b \<and> a < 2 then 10 ^ 9 else 0)"
proof -
  let ?H = "measurement_H (zeros_vec(3 := 1, 4 := 0)) 3"
  let ?g = "\<lambda>l. ?H a l * covar_init l l * ?H b l"
  have "mat_mul STATE_SIZE (mat_mul STATE_SIZE ?H covar_init) (mat_t ?H) a b
      = (\<Sum>l<STATE_SIZE. ?g l)"
    by (rule sandwich_diag) (simp add: covar_init_entry)
  also have "\<dots> = (\<Sum>l\<in>{3, 4}. ?g l)"
    by (rule sum.mono_neutral_right)
       (auto simp: STATE_SIZE_def MAX_OBSTACLES_def H_first covar_init_entry)
  also have "\<dots> = (if a = b \<and> a < 2 then 10 ^ 9 else 0)"
    by (auto simp: H_first covar_init_entry STATE_SIZE_def MAX_OBSTACLES_def)
  finally show ?thesis .
qed

lemma kalman_first_returns:
  "\<exists>sc'. kalman_step (zeros_vec(3 := 1, 4 := 0)) covar_init z 3 = Inr (Numbers sc')"
proof -
  have d: "sq_dist (zeros_vec(3 := 1, 4 := 0)) 3 = 1"
    by (simp add: sq_dist_def delta_x_def delta_y_def zeros_vec_def)
  have "det2 (innovation_S (zeros_vec(3 := 1, 4 := 0)) covar_init 3) \<noteq> 0"
    by (simp add: det2_def innovation_S_def Let_def mat_add_def S_first R_entry)
  with d kalman_step_numbers_iff[of "zeros_vec(3 := 1, 4 := 0)" covar_init z 3]
  show ?thesis by simp
qed

lemma update_first_returns:
  "\<exists>sc'. EKF_Slam_update (state_init, covar_init) 1 0 0 = Inr (Numbers sc')"
proof -
  have slot: "marker_slot 0 = Inr 3"
    using marker_slot_landmark[of 0] by simp
  have init: "init_marker state_init (marker_range 1 0) (marker_bearing 1 0) 3
      = zeros_vec(3 := 1, 4 := 0)"
    by (simp add: init_marker_def state_init_def zeros_vec_def marker_range_def
          marker_bearing_def atan2_ahead Let_def)
  show ?thesis
    using kalman_first_returns by (simp add: EKF_Slam_update_def slot init Let_def)
qed

lemma update_again_returns:
  "\<exists>sc'. EKF_Slam_update (zeros_vec(3 := 1), covar_init) (- 1) 0 0 = Inr (Numbers sc')"
proof -
  have slot: "marker_slot 0 = Inr 3"
    using marker_slot_landmark[of 0] by simp
  have init: "init_marker (zeros_vec(3 := 1)) (marker_range (- 1) 0) (marker_bearing (- 1) 0) 3
      = zeros_vec(3 := 1, 4 := 0)"
    by (auto simp: init_marker_def zeros_vec_def fun_eq_iff)
  show ?thesis
    using kalman_first_returns by (simp add: EKF_Slam_update_def slot init Let_def)
qed

text \<open>
  A marker seen at the robot itself, \<open>(0, 0)\<close>, from the initial estimate: range 0, the
  slot is initialised to the robot position, the squared distance is 0.
\<close>

lemma update_zero_distance:
  "EKF_Slam_update (state_init, covar_init) 0 0 0 = Inr AllNaN"
proof -
  have slot: "marker_slot 0 = Inr 3"
    using marker_slot_landmark[of 0] by simp
  have init: "init_marker state_init (marker_range 0 0) (marker_bearing 0 0) 3 = zeros_vec"
    by (auto simp: init_marker_def state_init_def zeros_vec_def marker_range_def fun_eq_iff)
  have d: "sq_dist zeros_vec 3 = 0"
    by (simp add: sq_dist_def delta_x_def delta_y_def zeros_vec_def)
  show ?thesis
    by (simp add: EKF_Slam_update_def slot init kalman_step_def d Let_def)
qed

section \<open>The claims about Transform2D\<close>

text \<open>
  Claim C1: for every Transform2D \<open>T\<close>, \<open>T * T.inv()\<close> is the identity transform (zero
  rotation, zero translation).

  The source does not do this. \<^verbatim>\<open>operator*=\<close> adds the rotations first and then
  rotates the right-hand translation by the sum, not by the left-hand rotation. For
  the half turn about the point \<open>(1, 0)\<close>, \<^verbatim>\<open>Transform2D{{1, 0}, PI}\<close>, the product with
  its inverse has rotation 0 and translation \<open>(2, 0)\<close>.
\<close>

theorem compose_with_inverse_half_turn:
  "mul (Transform2D_trans_rot \<lparr>vec_x = 1, vec_y = 0\<rparr> pi)
       (inv_tf (Transform2D_trans_rot \<lparr>vec_x = 1, vec_y = 0\<rparr> pi))
     = \<lparr>trans2d = \<lparr>vec_x = 2, vec_y = 0\<rparr>, rot2d = 0\<rparr>
   \<and> mul (Transform2D_trans_rot \<lparr>vec_x = 1, vec_y = 0\<rparr> pi)
         (inv_tf (Transform2D_trans_rot \<lparr>vec_x = 1, vec_y = 0\<rparr> pi))
     \<noteq> Transform2D_default"
  by (simp add: mul_def mul_assign_def inv_tf_def Transform2D_trans_rot_def
        Transform2D_default_def Let_def)

text \<open>
  Claim C2: applying a Transform2D with rotation \<open>\<theta>\<close> and translation \<open>(tx, ty)\<close> to a
  Point2D \<open>p\<close> gives \<open>(p.x cos \<theta> - p.y sin \<theta> + tx, p.x sin \<theta> + p.y cos \<theta> + ty)\<close>: the
  point is rotated as well as translated.

  The source's \<^verbatim>\<open>operator()(Point2D)\<close> only adds the translation. For the quarter turn
  \<^verbatim>\<open>Transform2D{{0, 0}, PI/2}\<close> and the point \<open>(1, 0)\<close> it returns \<open>(1, 0)\<close>, where the
  claimed formula gives \<open>(0, 1)\<close>; \<^verbatim>\<open>operator()(Vector2D)\<close> on the same numbers does
  return \<open>(0, 1)\<close>.
\<close>

theorem apply_point_quarter_turn:
  "apply_point (Transform2D_trans_rot \<lparr>vec_x = 0, vec_y = 0\<rparr> (pi / 2)) \<lparr>pt_x = 1, pt_y = 0\<rparr>
     = \<lparr>pt_x = 1, pt_y = 0\<rparr>
   \<and> apply_point_spec (Transform2D_trans_rot \<lparr>vec_x = 0, vec_y = 0\<rparr> (pi / 2))
        \<lparr>pt_x = 1, pt_y = 0\<rparr> = \<lparr>pt_x = 0, pt_y = 1\<rparr>
   \<and> apply_vector (Transform2D_trans_rot \<lparr>vec_x = 0, vec_y = 0\<rparr> (pi / 2))
        \<lparr>vec_x = 1, vec_y = 0\<rparr> = \<lparr>vec_x = 0, vec_y = 1\<rparr>"
  by (simp add: apply_point_def apply_point_spec_def apply_vector_def Transform2D_trans_rot_def)

text \<open>
  Claim C7: the stored rotation of a Transform2D is always in \<open>(-\<pi>, \<pi>]\<close>: every
  constructor normalizes its argument, \<^verbatim>\<open>operator*=\<close> leaves the rotation normalized,
  and \<^verbatim>\<open>rotation()\<close> returns a value in \<open>(-\<pi>, \<pi>]\<close>.

  As stated the claim fails: the constructor stores \<open>2\<pi>\<close> as it is, and the product of
  two half turns, each in range, has rotation \<open>2\<pi>\<close>.
\<close>

theorem rotation_not_normalized:
  "\<not> in_half_open (rotation (Transform2D_rot (2 * pi)))
   \<and> in_half_open (rotation (Transform2D_rot pi))
   \<and> \<not> in_half_open (rotation (mul_assign (Transform2D_rot pi) (Transform2D_rot pi)))"
  by (simp add: in_half_open_def rotation_def Transform2D_rot_def mul_assign_def Let_def)

text \<open>
  Claim C7, amended: \<^verbatim>\<open>rotation()\<close> returns the stored angle, and nothing in
  Transform2D normalizes it. The constructors store their angle argument unchanged
  (zero when they take none), and \<^verbatim>\<open>operator*=\<close> and \<^verbatim>\<open>operator*\<close> store the plain
  sum of the two rotations. So the rotation of a constructed transform is in
  \<open>(-\<pi>, \<pi>]\<close> exactly when the argument is, and that of a product exactly when the
  sum of the two rotations is.
\<close>

theorem rotation_is_stored_angle:
  "rotation Transform2D_default = 0
   \<and> rotation (Transform2D_trans v) = 0
   \<and> rotation (Transform2D_rot r) = r
   \<and> rotation (Transform2D_trans_rot v r) = r
   \<and> rotation (mul_assign a b) = rotation a + rotation b
   \<and> rotation (mul a b) = rotation a + rotation b
   \<and> in_half_open (rotation Transform2D_default)
   \<and> in_half_open (rotation (Transform2D_trans v))
   \<and> (in_half_open (rotation (Transform2D_rot r)) \<longleftrightarrow> in_half_open r)
   \<and> (in_half_open (rotation (Transform2D_trans_rot v r)) \<longleftrightarrow> in_half_open r)
   \<and> (in_half_open (rotation (mul a b)) \<longleftrightarrow> in_half_open (rotation a + rotation b))"
  by (simp add: rotation_def Transform2D_rot_def Transform2D_default_def Transform2D_trans_def
        Transform2D_trans_rot_def mul_def mul_assign_def Let_def in_half_open_def)

theorem rotation_is_stored_angle_witness:
  "rotation (mul (Transform2D_rot (pi / 2)) (Transform2D_trans_rot \<lparr>vec_x = 1, vec_y = 0\<rparr> (pi / 2)))
     = pi
   \<and> in_half_open (rotation (mul (Transform2D_rot (pi / 2))
                                 (Transform2D_trans_rot \<lparr>vec_x = 1, vec_y = 0\<rparr> (pi / 2))))"
  using rotation_is_stored_angle
          [of "\<lparr>vec_x = 1, vec_y = 0\<rparr>" "pi / 2" "Transform2D_rot (pi / 2)"
              "Transform2D_trans_rot \<lparr>vec_x = 1, vec_y = 0\<rparr> (pi / 2)"]
  by (simp add: in_half_open_def)

section \<open>The claim about angle normalization\<close>

text \<open>
  Claim C8: for every angle \<open>a\<close>, \<open>normalize_angle (normalize_angle a) = normalize_angle a\<close>,
  the result always lies in \<open>(-\<pi>, \<pi>]\<close>, and both endpoints are stable:
  \<open>normalize_angle \<pi> = \<pi>\<close> and \<open>normalize_angle (-\<pi>) = -\<pi>\<close>.

  The second and the third part cannot hold together: the stable value at \<open>-\<pi>\<close> is
  not in the half-open range.
\<close>

theorem normalize_angle_minus_pi_outside:
  "normalize_angle (- pi) = - pi \<and> \<not> in_half_open (normalize_angle (- pi))"
  by (simp add: normalize_angle_def in_half_open_def)

text \<open>
  Claim C8, amended: for every angle \<open>a\<close>, normalization is idempotent, the result lies
  in the closed range \<open>[-\<pi>, \<pi>]\<close>, and in \<open>(-\<pi>, \<pi>]\<close> for every \<open>a\<close> other than \<open>-\<pi>\<close>
  itself; both endpoints are stable.
\<close>

theorem normalize_angle_idempotent_closed_range:
  "normalize_angle (normalize_angle a) = normalize_angle a
   \<and> - pi \<le> normalize_angle a \<and> normalize_angle a \<le> pi
   \<and> (a \<noteq> - pi \<longrightarrow> in_half_open (normalize_angle a))
   \<and> normalize_angle pi = pi
   \<and> normalize_angle (- pi) = - pi"
  using normalize_angle_idem[of a] normalize_angle_bounds[of a] normalize_angle_half_open[of a]
    normalize_angle_test_case(1,2)
  by simp

theorem normalize_angle_idempotent_closed_range_witness:
  "3 * pi / 2 \<noteq> - pi
   \<and> normalize_angle (3 * pi / 2) = - pi / 2
   \<and> normalize_angle (normalize_angle (3 * pi / 2)) = - pi / 2
   \<and> in_half_open (normalize_angle (3 * pi / 2))"
proof -
  have ne: "3 * pi / 2 \<noteq> - pi"
    using pi_gt_zero by linarith
  have v: "normalize_angle (3 * pi / 2) = - pi / 2"
    by (rule normalize_angle_test_case(5))
  from normalize_angle_idempotent_closed_range[of "3 * pi / 2"] ne v
  show ?thesis by simp
qed

section \<open>The claims about the filter\<close>

text \<open>
  Claim C3: in an update for landmark \<open>k\<close> whose slot (entries \<open>3 + 2k\<close> and
  \<open>3 + 2k + 1\<close>) holds exactly \<open>(0, 0)\<close>, the slot is first set to
  \<open>(state(1) + r cos (\<phi> + state(0)), state(2) + r sin (\<phi> + state(0)))\<close>, the measurement
  projected from the current robot pose, and the Kalman step runs on that vector; a
  slot whose stored x or y is not zero is not initialised again.

  For a landmark id \<open>0 \<le> k < 30\<close> the whole update is the Kalman step on the vector
  described, with the covariance and the measurement untouched by the initialisation.
\<close>

theorem update_initialises_unseen_slot:
  assumes "0 \<le> marker_id" "marker_id < 30"
  shows "EKF_Slam_update (st, P) marker_x marker_y marker_id =
     kalman_step
       (if st (3 + 2 * nat marker_id) = 0 \<and> st (3 + 2 * nat marker_id + 1) = 0
        then st(3 + 2 * nat marker_id :=
                  st 1 + marker_range marker_x marker_y
                           * cos (marker_bearing marker_x marker_y + st 0),
                3 + 2 * nat marker_id + 1 :=
                  st 2 + marker_range marker_x marker_y
                           * sin (marker_bearing marker_x marker_y + st 0))
        else st)
       P (measurement_z marker_x marker_y) (3 + 2 * nat marker_id)"
  by (simp add: EKF_Slam_update_def marker_slot_landmark[OF assms] init_marker_def Let_def)

text \<open>
  Two calls: landmark 0 seen for the first time at \<open>(1, 0)\<close> from the initial estimate,
  and seen again at \<open>(-1, 0)\<close> when its slot already holds \<open>(1, 0)\<close>.
\<close>

theorem update_initialises_unseen_slot_witness:
  "(0::int) \<le> 0 \<and> (0::int) < 30
   \<and> EKF_Slam_update (state_init, covar_init) 1 0 0 =
       kalman_step (zeros_vec(3 := 1, 4 := 0)) covar_init (measurement_z 1 0) 3
   \<and> EKF_Slam_update (zeros_vec(3 := 1), covar_init) (- 1) 0 0 =
       kalman_step (zeros_vec(3 := 1)) covar_init (measurement_z (- 1) 0) 3"
  using update_initialises_unseen_slot[of 0 state_init covar_init 1 0]
    update_initialises_unseen_slot[of 0 "zeros_vec(3 := 1)" covar_init "- 1" 0]
  by (simp add: state_init_def zeros_vec_def marker_range_def marker_bearing_def atan2_ahead)

text \<open>
  Claim C4: starting from a symmetric covariance matrix, every predict step
  (\<open>covar \<leftarrow> A covar A\<^sup>T + Q\<close>) and every update step (\<open>covar \<leftarrow> (I - K H) covar\<close> with
  \<open>K = covar H\<^sup>T (H covar H\<^sup>T + R)\<^sup>-\<^sup>1\<close>) produces a symmetric covariance matrix, and so
  does any sequence of predict and update calls.

  As stated the claim fails for an update at zero distance. From the estimate the
  constructor leaves, whose covariance is symmetric, a marker seen at \<open>(0, 0)\<close> for
  landmark 0 has range 0; its slot is initialised to the robot position, the squared
  distance \<^verbatim>\<open>d\<close> is 0, the entries of \<^verbatim>\<open>H\<close> are \<open>0 / 0\<close>, and the call returns with NaN in
  every entry of the covariance, which is not symmetric.
\<close>

theorem update_zero_distance_not_symmetric:
  "symmetric_covar (Numbers (state_init, covar_init))
   \<and> EKF_Slam_update (state_init, covar_init) 0 0 0 = Inr AllNaN
   \<and> \<not> symmetric_covar AllNaN"
  by (simp add: covar_init_sym update_zero_distance)

text \<open>
  Claim C4, amended: starting from a symmetric covariance matrix of real numbers,
  every predict step produces a symmetric covariance matrix, and so does every update
  step whose landmark index is inside the vector, whose squared distance \<^verbatim>\<open>d\<close> between
  the robot and the landmark estimate is not zero, and whose innovation matrix
  \<open>H covar H\<^sup>T + R\<close> is invertible: such an update returns, with real numbers, and every
  update that returns with real numbers is of this kind. Along any sequence of predict
  and update calls the covariance stays symmetric as long as it holds real numbers,
  that is unless an update at \<open>d = 0\<close> has left NaN in it.

  Symmetry is that of the \<open>STATE_SIZE \<times> STATE_SIZE\<close> matrix, in exact arithmetic.
\<close>

theorem covariance_stays_symmetric:
  "symmetric STATE_SIZE (snd sc) \<Longrightarrow>
     symmetric STATE_SIZE (snd (EKF_Slam_predict eps sc twist))
     \<and> (\<forall>k. marker_slot marker_id = Inr k
              \<and> sq_dist (init_marker (fst sc) (marker_range marker_x marker_y)
                           (marker_bearing marker_x marker_y) k) k \<noteq> 0
              \<and> det2 (innovation_S
                         (init_marker (fst sc) (marker_range marker_x marker_y)
                            (marker_bearing marker_x marker_y) k) (snd sc) k) \<noteq> 0
            \<longrightarrow> (\<exists>sc'. EKF_Slam_update sc marker_x marker_y marker_id = Inr (Numbers sc')
                       \<and> symmetric STATE_SIZE (snd sc')))
     \<and> (\<forall>sc'. EKF_Slam_update sc marker_x marker_y marker_id = Inr (Numbers sc')
            \<longrightarrow> symmetric STATE_SIZE (snd sc')
                \<and> (\<exists>k. marker_slot marker_id = Inr k
                       \<and> sq_dist (init_marker (fst sc) (marker_range marker_x marker_y)
                                    (marker_bearing marker_x marker_y) k) k \<noteq> 0
                       \<and> det2 (innovation_S
                                  (init_marker (fst sc) (marker_range marker_x marker_y)
                                     (marker_bearing marker_x marker_y) k) (snd sc) k) \<noteq> 0))
     \<and> (\<forall>est'. ekf_run eps (Numbers sc) cs = Inr est'
            \<longrightarrow> est' = AllNaN \<or> symmetric_covar est')"
proof -
  assume sym: "symmetric STATE_SIZE (snd sc)"
  have predict: "symmetric STATE_SIZE (snd (EKF_Slam_predict eps sc twist))"
    using sym by (rule predict_sym)
  have returned: "symmetric STATE_SIZE (snd sc')"
    if "EKF_Slam_update sc marker_x marker_y marker_id = Inr (Numbers sc')" for sc'
    using sym that by (rule update_sym)
  have kind: "\<exists>k. marker_slot marker_id = Inr k
       \<and> sq_dist (init_marker (fst sc) (marker_range marker_x marker_y)
                    (marker_bearing marker_x marker_y) k) k \<noteq> 0
       \<and> det2 (innovation_S
                  (init_marker (fst sc) (marker_range marker_x marker_y)
                     (marker_bearing marker_x marker_y) k) (snd sc) k) \<noteq> 0"
    if "EKF_Slam_update sc marker_x marker_y marker_id = Inr (Numbers sc')" for sc'
    using that update_numbers_iff[of sc marker_x marker_y marker_id] by blast
  have returns: "\<exists>sc'. EKF_Slam_update sc marker_x marker_y marker_id = Inr (Numbers sc')
       \<and> symmetric STATE_SIZE (snd sc')"
    if "marker_slot marker_id = Inr k
       \<and> sq_dist (init_marker (fst sc) (marker_range marker_x marker_y)
                    (marker_bearing marker_x marker_y) k) k \<noteq> 0
       \<and> det2 (innovation_S
                  (init_marker (fst sc) (marker_range marker_x marker_y)
                     (marker_bearing marker_x marker_y) k) (snd sc) k) \<noteq> 0" for k
  proof -
    from that update_numbers_iff[of sc marker_x marker_y marker_id]
    obtain sc' where "EKF_Slam_update sc marker_x marker_y marker_id = Inr (Numbers sc')"
      by blast
    with returned show ?thesis by blast
  qed
  have run: "est' = AllNaN \<or> symmetric_covar est'"
    if "ekf_run eps (Numbers sc) cs = Inr est'" for est'
    using run_sym[of "Numbers sc" eps cs est'] sym that by simp
  from predict returns returned kind run show ?thesis
    by blast
qed

text \<open>
  From the estimate the constructor leaves: one predict, the first observation of
  landmark 0 at \<open>(1, 0)\<close> (index 3, squared distance 1, an invertible innovation matrix),
  and a run of that observation followed by a predict.
\<close>

theorem covariance_stays_symmetric_witness:
  "symmetric STATE_SIZE (snd (state_init, covar_init))
   \<and> symmetric STATE_SIZE
       (snd (EKF_Slam_predict (1 / 10 ^ 12) (state_init, covar_init)
               \<lparr>tw_omega = 1, tw_x = 1, tw_y = 0\<rparr>))
   \<and> marker_slot 0 = Inr 3
   \<and> sq_dist (init_marker (fst (state_init, covar_init)) (marker_range 1 0)
                (marker_bearing 1 0) 3) 3 = 1
   \<and> det2 (innovation_S (init_marker (fst (state_init, covar_init)) (marker_range 1 0)
                             (marker_bearing 1 0) 3) (snd (state_init, covar_init)) 3)
       = (10 ^ 9 + 1 / 10) * (10 ^ 9 + 1 / 10)
   \<and> (\<exists>sc'. EKF_Slam_update (state_init, covar_init) 1 0 0 = Inr (Numbers sc')
             \<and> symmetric STATE_SIZE (snd sc'))
   \<and> (\<exists>sc'. ekf_run (1 / 10 ^ 12) (Numbers (state_init, covar_init))
               [Update 1 0 0, Predict \<lparr>tw_omega = 1, tw_x = 1, tw_y = 0\<rparr>]
               = Inr (Numbers sc')
             \<and> symmetric STATE_SIZE (snd sc'))"
proof -
  let ?tw = "\<lparr>tw_omega = 1, tw_x = 1, tw_y = 0\<rparr>"
  let ?cs = "[Update 1 0 0, Predict ?tw]"
  have h: "symmetric STATE_SIZE (snd (state_init, covar_init))"
    by (simp add: covar_init_sym)
  have slot: "marker_slot 0 = Inr 3"
    using marker_slot_landmark[of 0] by simp
  have init: "init_marker (fst (state_init, covar_init)) (marker_range 1 0)
      (marker_bearing 1 0) 3 = zeros_vec(3 := 1, 4 := 0)"
    by (simp add: init_marker_def state_init_def zeros_vec_def marker_range_def
          marker_bearing_def atan2_ahead Let_def)
  have d: "sq_dist (zeros_vec(3 := 1, 4 := 0)) 3 = 1"
    by (simp add: sq_dist_def delta_x_def delta_y_def zeros_vec_def)
  have det: "det2 (innovation_S (zeros_vec(3 := 1, 4 := 0)) covar_init 3)
      = (10 ^ 9 + 1 / 10) * (10 ^ 9 + 1 / 10)"
    by (simp add: det2_def innovation_S_def Let_def mat_add_def S_first R_entry)
  note t = covariance_stays_symmetric[OF h, of "1 / 10 ^ 12" ?tw 0 1 0 ?cs]
  from t slot init d det
  obtain sc1 where u: "EKF_Slam_update (state_init, covar_init) 1 0 0 = Inr (Numbers sc1)"
    and s1: "symmetric STATE_SIZE (snd sc1)"
    by auto
  have run: "ekf_run (1 / 10 ^ 12) (Numbers (state_init, covar_init)) ?cs
      = Inr (Numbers (EKF_Slam_predict (1 / 10 ^ 12) sc1 ?tw))"
    by (simp add: u)
  from t run have "symmetric STATE_SIZE (snd (EKF_Slam_predict (1 / 10 ^ 12) sc1 ?tw))"
    by auto
  with h t slot init d det u s1 run show ?thesis
    by auto
qed

text \<open>
  Claim C6: for the zero twist the predict step leaves every component of the state
  vector unchanged and changes the covariance only by adding \<open>Q\<close>, whose non-zero
  entries lie in the \<open>3 \<times> 3\<close> robot-pose block; every landmark block of the covariance
  and every landmark component of the state are unchanged.

  The tolerance of \<^verbatim>\<open>almost_equal\<close> is positive; the covariance is the
  \<open>STATE_SIZE \<times> STATE_SIZE\<close> matrix.
\<close>

theorem predict_zero_twist_adds_Q:
  assumes "0 < eps" "tw_omega twist = 0" "tw_x twist = 0" "tw_y twist = 0"
  shows "fst (EKF_Slam_predict eps (st, P) twist) = st
     \<and> (\<forall>i<STATE_SIZE. \<forall>j<STATE_SIZE.
          snd (EKF_Slam_predict eps (st, P) twist) i j = P i j + Q_bar i j)
     \<and> (\<forall>i j. Q_bar i j \<noteq> 0 \<longrightarrow> i < 3 \<and> j < 3)
     \<and> (\<forall>i<STATE_SIZE. \<forall>j<STATE_SIZE. 3 \<le> i \<or> 3 \<le> j \<longrightarrow>
          snd (EKF_Slam_predict eps (st, P) twist) i j = P i j)"
  using assms
  by (auto simp: EKF_Slam_predict_def Let_def predict_zero_A predict_zero_state mat_add_def
        sandwich_eye Q_bar_entry split: if_splits)

theorem predict_zero_twist_adds_Q_witness:
  "(0::real) < 1 / 10 ^ 12
   \<and> fst (EKF_Slam_predict (1 / 10 ^ 12) (zeros_vec(0 := 1, 3 := 2), covar_init)
            \<lparr>tw_omega = 0, tw_x = 0, tw_y = 0\<rparr>) = zeros_vec(0 := 1, 3 := 2)
   \<and> snd (EKF_Slam_predict (1 / 10 ^ 12) (zeros_vec(0 := 1, 3 := 2), covar_init)
            \<lparr>tw_omega = 0, tw_x = 0, tw_y = 0\<rparr>) 1 1 = 1 / 10
   \<and> snd (EKF_Slam_predict (1 / 10 ^ 12) (zeros_vec(0 := 1, 3 := 2), covar_init)
            \<lparr>tw_omega = 0, tw_x = 0, tw_y = 0\<rparr>) 3 3 = 10 ^ 9
   \<and> snd (EKF_Slam_predict (1 / 10 ^ 12) (zeros_vec(0 := 1, 3 := 2), covar_init)
            \<lparr>tw_omega = 0, tw_x = 0, tw_y = 0\<rparr>) 3 1 = 0"
proof -
  let ?tw = "\<lparr>tw_omega = 0, tw_x = 0, tw_y = 0\<rparr>"
  let ?st = "zeros_vec(0 := 1, 3 := 2)"
  let ?P' = "snd (EKF_Slam_predict (1 / 10 ^ 12) (?st, covar_init) ?tw)"
  have e: "(0::real) < 1 / 10 ^ 12" by simp
  note t = predict_zero_twist_adds_Q[OF e, of ?tw ?st covar_init]
  from t have s: "fst (EKF_Slam_predict (1 / 10 ^ 12) (?st, covar_init) ?tw) = ?st"
    by simp
  from t have a: "\<forall>i<STATE_SIZE. \<forall>j<STATE_SIZE. ?P' i j = covar_init i j + Q_bar i j"
    by simp
  have "?P' 1 1 = covar_init 1 1 + Q_bar 1 1" "?P' 3 3 = covar_init 3 3 + Q_bar 3 3"
    "?P' 3 1 = covar_init 3 1 + Q_bar 3 1"
    using a by (simp_all add: STATE_SIZE_def MAX_OBSTACLES_def)
  then show ?thesis
    using e s by (simp add: covar_init_entry Q_bar_entry STATE_SIZE_def MAX_OBSTACLES_def)
qed

text \<open>
  Claim C10: in the non-zero angular-rate branch of the predict step the heading
  \<open>state(0)\<close> is incremented by \<open>twist.omega\<close> before the Jacobian entries \<open>A(1,0)\<close> and
  \<open>A(2,0)\<close> are computed, so they are evaluated at the heading \<open>\<theta> + \<omega>\<close>; in the zero-rate
  branch they are evaluated at the unchanged heading \<open>\<theta>\<close>.

  Here \<open>\<theta> = st 0\<close> is the heading before the call, and the matrix is the \<^verbatim>\<open>A_t\<close> that
  enters the covariance of the call.
\<close>

theorem predict_jacobian_heading:
  "0 < eps \<Longrightarrow>
   (\<not> almost_equal eps (tw_omega twist) 0 \<longrightarrow>
      fst (EKF_Slam_predict eps (st, P) twist) 0 = st 0 + tw_omega twist \<and>
      predict_A_t eps (predict_state eps st twist) twist 1 0 =
        (tw_x twist / tw_omega twist)
          * (cos ((st 0 + tw_omega twist) + tw_omega twist) - cos (st 0 + tw_omega twist)) \<and>
      predict_A_t eps (predict_state eps st twist) twist 2 0 =
        (tw_x twist / tw_omega twist)
          * (sin ((st 0 + tw_omega twist) + tw_omega twist) - sin (st 0 + tw_omega twist))) \<and>
   (almost_equal eps (tw_omega twist) 0 \<longrightarrow>
      fst (EKF_Slam_predict eps (st, P) twist) 0 = st 0 \<and>
      predict_A_t eps (predict_state eps st twist) twist 1 0 = - tw_x twist * sin (st 0) \<and>
      predict_A_t eps (predict_state eps st twist) twist 2 0 = tw_x twist * cos (st 0)) \<and>
   snd (EKF_Slam_predict eps (st, P) twist) =
     mat_add (mat_mul STATE_SIZE
                (mat_mul STATE_SIZE (predict_A_t eps (predict_state eps st twist) twist) P)
                (mat_t (predict_A_t eps (predict_state eps st twist) twist))) Q_bar"
  by (simp add: EKF_Slam_predict_def predict_A_t_def predict_state_def Let_def mat_add_def
        mat_set_def eye_def zeros_mat_def)

text \<open>A turning twist and a straight one, both from the initial estimate.\<close>

theorem predict_jacobian_heading_witness:
  "(0::real) < 1 / 10 ^ 12
   \<and> \<not> almost_equal (1 / 10 ^ 12) (tw_omega \<lparr>tw_omega = 1, tw_x = 1, tw_y = 0\<rparr>) 0
   \<and> fst (EKF_Slam_predict (1 / 10 ^ 12) (state_init, covar_init)
            \<lparr>tw_omega = 1, tw_x = 1, tw_y = 0\<rparr>) 0 = 1
   \<and> predict_A_t (1 / 10 ^ 12)
        (predict_state (1 / 10 ^ 12) state_init \<lparr>tw_omega = 1, tw_x = 1, tw_y = 0\<rparr>)
        \<lparr>tw_omega = 1, tw_x = 1, tw_y = 0\<rparr> 1 0 = cos 2 - cos 1
   \<and> predict_A_t (1 / 10 ^ 12)
        (predict_state (1 / 10 ^ 12) state_init \<lparr>tw_omega = 1, tw_x = 1, tw_y = 0\<rparr>)
        \<lparr>tw_omega = 1, tw_x = 1, tw_y = 0\<rparr> 2 0 = sin 2 - sin 1
   \<and> almost_equal (1 / 10 ^ 12) (tw_omega \<lparr>tw_omega = 0, tw_x = 1, tw_y = 0\<rparr>) 0
   \<and> predict_A_t (1 / 10 ^ 12)
        (predict_state (1 / 10 ^ 12) state_init \<lparr>tw_omega = 0, tw_x = 1, tw_y = 0\<rparr>)
        \<lparr>tw_omega = 0, tw_x = 1, tw_y = 0\<rparr> 1 0 = 0
   \<and> predict_A_t (1 / 10 ^ 12)
        (predict_state (1 / 10 ^ 12) state_init \<lparr>tw_omega = 0, tw_x = 1, tw_y = 0\<rparr>)
        \<lparr>tw_omega = 0, tw_x = 1, tw_y = 0\<rparr> 2 0 = 1"
proof -
  have e: "(0::real) < 1 / 10 ^ 12" by simp
  have turning: "\<not> almost_equal (1 / 10 ^ 12) (tw_omega \<lparr>tw_omega = 1, tw_x = 1, tw_y = 0\<rparr>) 0"
    by (simp add: almost_equal_def)
  have straight: "almost_equal (1 / 10 ^ 12) (tw_omega \<lparr>tw_omega = 0, tw_x = 1, tw_y = 0\<rparr>) 0"
    by (simp add: almost_equal_def)
  from predict_jacobian_heading[OF e, of "\<lparr>tw_omega = 1, tw_x = 1, tw_y = 0\<rparr>" state_init covar_init]
    predict_jacobian_heading[OF e, of "\<lparr>tw_omega = 0, tw_x = 1, tw_y = 0\<rparr>" state_init covar_init]
    turning straight e
  show ?thesis
    by (simp add: state_init_def zeros_vec_def)
qed

text \<open>
  Claim C5: in every update the bearing component of the residual \<open>z - z_hat\<close> that
  \<open>state += K (z - z_hat)\<close> applies lies in \<open>(-\<pi>, \<pi>]\<close>.

  The source normalizes the bearing of \<open>z_hat\<close> only; the difference is used as it
  is. With the robot at the origin heading 0, landmark 0 stored at \<open>(1, 0)\<close> and the
  marker seen at \<open>(-1, 0)\<close>, the measured bearing is \<open>\<pi> + 0.1\<close>, the predicted one is 0,
  and the residual bearing is \<open>\<pi> + 0.1\<close>, outside the range; the call returns
  with real numbers, so this residual is the one applied to the state.
\<close>

theorem residual_bearing_behind:
  "marker_slot 0 = Inr 3
   \<and> init_marker (zeros_vec(3 := 1)) (marker_range (- 1) 0) (marker_bearing (- 1) 0) 3
       = zeros_vec(3 := 1)
   \<and> residual (zeros_vec(3 := 1)) (measurement_z (- 1) 0) 3 1 = pi + 1 / 10
   \<and> \<not> in_half_open (residual (zeros_vec(3 := 1)) (measurement_z (- 1) 0) 3 1)
   \<and> (\<exists>sc'. EKF_Slam_update (zeros_vec(3 := 1), covar_init) (- 1) 0 0 = Inr (Numbers sc'))"
proof -
  have slot: "marker_slot 0 = Inr 3"
    using marker_slot_landmark[of 0] by simp
  have init: "init_marker (zeros_vec(3 := 1)) (marker_range (- 1) 0) (marker_bearing (- 1) 0) 3
      = zeros_vec(3 := 1)"
    by (simp add: init_marker_def)
  have res: "residual (zeros_vec(3 := 1)) (measurement_z (- 1) 0) 3 1 = pi + 1 / 10"
    by (simp add: residual_def zeros_vec_def z_hat_def measurement_z_def marker_range_def
          marker_bearing_def vec_sub_def vec_add_def v_t_def delta_x_def delta_y_def
          sq_dist_def atan2_behind atan2_ahead normalize_angle_zero)
  have "\<not> in_half_open (pi + 1 / 10)"
    by (simp add: in_half_open_def)
  with slot init res update_again_returns show ?thesis by simp
qed

text \<open>
  Claim C9: the update indexes the state vector at \<open>3 + 2 id\<close> and \<open>3 + 2 id + 1\<close>
  without a check of its own; with the state size \<open>3 + 2 \<cdot> 30 = 63\<close> these accesses are
  within bounds if and only if \<open>0 \<le> id < 30\<close>.

  The "only if" fails at \<open>id = -1\<close>: the two accesses are then entries 1 and 2, the
  robot's own x and y, which are inside the vector. It also fails where the 32-bit
  product wraps around: the smallest \<^verbatim>\<open>int\<close> gives index 3.
\<close>

theorem marker_slot_minus_one_in_bounds:
  "marker_slot (- 1) = Inr 1 \<and> 1 + 1 < STATE_SIZE \<and> \<not> (0 \<le> (- 1 :: int) \<and> (- 1 :: int) < 30)
   \<and> in_int_range (- (2 ^ 31)) \<and> marker_slot (- (2 ^ 31)) = Inr 3 \<and> 3 + 1 < STATE_SIZE
   \<and> \<not> (0 \<le> (- (2 ^ 31) :: int) \<and> (- (2 ^ 31) :: int) < 30)"
  by (simp add: marker_slot_def wrap_int_def in_int_range_def Let_def STATE_SIZE_def
        MAX_OBSTACLES_def)

text \<open>
  Claim C9, amended: the update indexes the state vector at \<^verbatim>\<open>marker_index\<close> and
  \<^verbatim>\<open>marker_index + 1\<close>, where \<^verbatim>\<open>marker_index = id * 2 + 3\<close> is computed on 32-bit
  integers, without a check of its own. With the state size 63 the two accesses are
  within bounds if and only if \<open>-1 \<le> id < 30\<close> (for \<open>id = -1\<close> they are entries 1 and 2,
  the robot's x and y) or the 32-bit computation wraps around into the vector: \<open>id\<close> is
  the largest \<^verbatim>\<open>int\<close> (entries 1 and 2) or one of the 30 smallest (entries from 3 on).
  For \<open>0 \<le> id < 30\<close> they are entries \<open>3 + 2 id\<close> and \<open>3 + 2 id + 1\<close>, so that range is
  enough for every update to stay in bounds. For every other \<open>id\<close> the update ends with
  an access outside the vector.
\<close>

theorem marker_slot_bounds:
  "in_int_range marker_id \<Longrightarrow>
     STATE_SIZE = 63
   \<and> ((\<exists>k. marker_slot marker_id = Inr k) \<longleftrightarrow>
        (- 1 \<le> marker_id \<and> marker_id < 30) \<or> marker_id = 2 ^ 31 - 1
          \<or> marker_id < - (2 ^ 31) + 30)
   \<and> ((\<exists>k. marker_slot marker_id = Inr k \<and> 3 \<le> k) \<longleftrightarrow>
        (0 \<le> marker_id \<and> marker_id < 30) \<or> marker_id < - (2 ^ 31) + 30)
   \<and> (0 \<le> marker_id \<and> marker_id < 30 \<longrightarrow>
        marker_slot marker_id = Inr (3 + 2 * nat marker_id)
        \<and> 3 + 2 * nat marker_id + 1 < STATE_SIZE)
   \<and> (EKF_Slam_update sc marker_x marker_y marker_id = Inl IndexOutOfBounds \<longleftrightarrow>
        \<not> ((- 1 \<le> marker_id \<and> marker_id < 30) \<or> marker_id = 2 ^ 31 - 1
             \<or> marker_id < - (2 ^ 31) + 30))"
proof -
  assume range: "in_int_range marker_id"
  have size: "STATE_SIZE = 63"
    by (simp add: STATE_SIZE_def MAX_OBSTACLES_def)
  note inside = marker_slot_ok_iff[OF range]
  have landmark: "(\<exists>k. marker_slot marker_id = Inr k \<and> 3 \<le> k) \<longleftrightarrow>
      (0 \<le> marker_id \<and> marker_id < 30) \<or> marker_id < - (2 ^ 31) + 30"
    using range
    by (auto simp: marker_slot_def Let_def size marker_index_cases in_int_range_def
          split: if_splits)
  have plain: "0 \<le> marker_id \<and> marker_id < 30 \<longrightarrow>
      marker_slot marker_id = Inr (3 + 2 * nat marker_id)
      \<and> 3 + 2 * nat marker_id + 1 < STATE_SIZE"
    using marker_slot_landmark[of marker_id] by (auto simp: size)
  have update: "EKF_Slam_update sc marker_x marker_y marker_id = Inl IndexOutOfBounds
       \<longleftrightarrow> \<not> (\<exists>k. marker_slot marker_id = Inr k)"
  proof (cases "marker_slot marker_id")
    case (Inl e)
    with marker_slot_error[of marker_id e] show ?thesis
      by (simp add: EKF_Slam_update_def Let_def)
  next
    case (Inr k)
    then show ?thesis
      using kalman_step_errors by (simp add: EKF_Slam_update_def Let_def)
  qed
  from size inside landmark plain update show ?thesis
    by simp
qed

theorem marker_slot_bounds_witness:
  "in_int_range 29 \<and> in_int_range 30 \<and> in_int_range (2 ^ 31 - 1)
   \<and> (0::int) \<le> 29 \<and> (29::int) < 30
   \<and> marker_slot 29 = Inr 61 \<and> 61 + 1 < STATE_SIZE
   \<and> EKF_Slam_update (state_init, covar_init) 1 0 30 = Inl IndexOutOfBounds
   \<and> (\<exists>k. marker_slot (2 ^ 31 - 1) = Inr k)"
proof -
  have r: "in_int_range 29" "in_int_range 30" "in_int_range (2 ^ 31 - 1)"
    by (simp_all add: in_int_range_def)
  have size: "61 + 1 < STATE_SIZE"
    using marker_slot_bounds[OF r(1)] by simp
  have inside: "marker_slot 29 = Inr 61"
    using marker_slot_bounds[OF r(1)] by simp
  have outside: "EKF_Slam_update (state_init, covar_init) 1 0 30 = Inl IndexOutOfBounds"
    using marker_slot_bounds[OF r(2), of "(state_init, covar_init)" 1 0] by simp
  have wrapped: "\<exists>k. marker_slot (2 ^ 31 - 1) = Inr k"
    using marker_slot_bounds[OF r(3)] by simp
  have ar: "(0::int) \<le> 29" "(29::int) < 30"
    by simp_all
  from r ar size inside outside wrapped show ?thesis
    by blast
qed

end
